theory Spec2Isabelle
  imports Main
begin

section \<open>Python strings\<close>

text \<open>
  A Python \<open>str\<close> is a sequence of Unicode code points and \<open>len\<close> counts code points
  (the source tests \<open>len(cur) > 40\<close> on lines holding the full-width colon U+FF1A), so a
  character is modelled by its code point and a string by a list of code points.
  \<open>py\<close> embeds an ASCII literal.
\<close>

type_synonym pychar = nat
type_synonym pystr = "pychar list"

definition py :: "string \<Rightarrow> pystr" where
  "py s = map of_char s"

text \<open>
  \<open>str.isspace\<close> for one character. \<open>str.strip()\<close> without argument and the class
  \<open>\s\<close> of \<open>re\<close> on \<open>str\<close> patterns both use this predicate.
\<close>

definition py_isspace :: "pychar \<Rightarrow> bool" where
  "py_isspace c =
     ((9 \<le> c \<and> c \<le> 13) \<or> (28 \<le> c \<and> c \<le> 32) \<or> c = 133 \<or> c = 160 \<or> c = 5760 \<or>
      (8192 \<le> c \<and> c \<le> 8202) \<or> c = 8232 \<or> c = 8233 \<or> c = 8239 \<or> c = 8287 \<or>
      c = 12288)"

definition lstrip :: "pystr \<Rightarrow> pystr" where
  "lstrip s = dropWhile py_isspace s"

definition rstrip :: "pystr \<Rightarrow> pystr" where
  "rstrip s = rev (dropWhile py_isspace (rev s))"

definition strip :: "pystr \<Rightarrow> pystr" where
  "strip s = lstrip (rstrip s)"

text \<open>\<open>line.rstrip("\n")\<close>: only line feeds (code point 10) are removed.\<close>

definition rstrip_nl :: "pystr \<Rightarrow> pystr" where
  "rstrip_nl s = rev (dropWhile (\<lambda>c. c = 10) (rev s))"

definition startswith :: "pystr \<Rightarrow> pystr \<Rightarrow> bool" where
  "startswith s p = (take (length p) s = p)"

text \<open>\<open>s.startswith((p1, ..., pn))\<close> with a tuple: some element is a prefix.\<close>

definition startswith_any :: "pystr \<Rightarrow> pystr list \<Rightarrow> bool" where
  "startswith_any s ps = list_ex (startswith s) ps"

definition endswith :: "pystr \<Rightarrow> pystr \<Rightarrow> bool" where
  "endswith s p = (length p \<le> length s \<and> drop (length s - length p) s = p)"

text \<open>\<open>sep.join(xs)\<close>.\<close>

fun join :: "pystr \<Rightarrow> pystr list \<Rightarrow> pystr" where
  "join sep [] = []"
| "join sep [x] = x"
| "join sep (x # y # ys) = x @ sep @ join sep (y # ys)"

section \<open>The line preprocessor (\<open>preprocess_markdown\<close>)\<close>

text \<open>
  The three back-ticks of a code fence are written by code point (96); the other
  markers are ASCII literals.
\<close>

definition fence_backticks :: pystr where
  "fence_backticks = [96, 96, 96]"

definition is_block_start :: "pystr \<Rightarrow> bool" where
  "is_block_start line =
     (let s = strip line in
        startswith s (py ''#'') \<or> startswith s (py ''>'') \<or>
        startswith s fence_backticks \<or> startswith s (py ''~~~'') \<or>
        startswith s (py ''$$'') \<or> s = [])"

definition is_table_row :: "pystr \<Rightarrow> bool" where
  "is_table_row cur = startswith (strip cur) (py ''|'')"

text \<open>\<open>lines[i+1].rstrip("\n") if i+1 < len(lines) else ""\<close>.\<close>

definition next_line :: "pystr list \<Rightarrow> nat \<Rightarrow> pystr" where
  "next_line lines i = (if i + 1 < length lines then rstrip_nl (lines ! (i + 1)) else [])"

text \<open>
  \<open>dense\<close>: the line holds a dollar sign, or the full-width colon (U+FF1A, 65306) and
  more than 40 characters, or an ASCII comma and more than 80 characters.
\<close>

definition dense :: "pystr \<Rightarrow> bool" where
  "dense cur =
     (36 \<in> set cur \<or> (65306 \<in> set cur \<and> length cur > 40) \<or>
      (44 \<in> set cur \<and> length cur > 80))"

definition next_markers :: "pystr list" where
  "next_markers = [py ''#'', py ''>'', fence_backticks, py ''~~~'', py ''$$'']"

text \<open>The dense-line rule: the value of \<open>cur\<close> after the two nested tests.\<close>

definition hard_break :: "pystr \<Rightarrow> pystr \<Rightarrow> pystr" where
  "hard_break cur nxt =
     (if cur \<noteq> [] \<and> nxt \<noteq> [] \<and> \<not> startswith_any (strip nxt) next_markers then
        (if dense cur \<and> \<not> endswith cur (py ''  '') then cur @ py ''  '' else cur)
      else cur)"

record pre_state =
  out_lines :: "pystr list"
  prev_blank :: bool

text \<open>One iteration of \<open>for i, line in enumerate(lines)\<close>.\<close>

definition loop_body :: "pystr list \<Rightarrow> pre_state \<Rightarrow> nat \<Rightarrow> pre_state" where
  "loop_body lines st i =
     (let cur = rstrip_nl (lines ! i) in
      if is_block_start cur \<and> \<not> is_table_row cur then
        \<lparr>out_lines =
           (if \<not> prev_blank st \<and> cur \<noteq> [] then out_lines st @ [[]] else out_lines st) @ [cur],
         prev_blank = (cur = [])\<rparr>
      else
        (let cur' = hard_break cur (next_line lines i) in
         \<lparr>out_lines = out_lines st @ [cur'], prev_blank = (cur' = [])\<rparr>))"

text \<open>The state after the first \<open>n\<close> iterations, from \<open>out_lines = []\<close>, \<open>prev_blank = True\<close>.\<close>

definition run_loop :: "pystr list \<Rightarrow> nat \<Rightarrow> pre_state" where
  "run_loop lines n = foldl (loop_body lines) \<lparr>out_lines = [], prev_blank = True\<rparr> [0..<n]"

definition preprocess_lines :: "pystr list \<Rightarrow> pystr list" where
  "preprocess_lines lines = out_lines (run_loop lines (length lines))"

text \<open>The text written to the temporary file: \<open>"\n".join(out_lines)\<close>.\<close>

definition preprocess_text :: "pystr list \<Rightarrow> pystr" where
  "preprocess_text lines = join [10] (preprocess_lines lines)"

text \<open>The lines appended to \<open>out_lines\<close> by iteration \<open>i\<close>.\<close>

definition emitted :: "pystr list \<Rightarrow> nat \<Rightarrow> pystr list" where
  "emitted lines i =
     drop (length (out_lines (run_loop lines i))) (out_lines (run_loop lines (Suc i)))"

section \<open>Regular expressions of the cell normalizer\<close>

text \<open>
  The two patterns are sequences of single-character classes, each taken once, with
  \<open>*\<close> or with \<open>+\<close>, followed by the anchor \<open>$\<close>. \<open>rx_match\<close> is the backtracking
  matcher of \<open>re.match\<close> for such sequences: it starts at the beginning of the string
  (so the leading \<open>^\<close> adds nothing), quantifiers are greedy and give characters back
  when the rest fails, and \<open>$\<close> holds at the end of the string and before a final line
  feed. The third argument collects the characters matched inside the group; the result
  is \<open>m.group(1)\<close>, or \<open>None\<close> when there is no match.
\<close>

datatype quant = Once | Star | Plus

datatype rx_item = Chars "pychar \<Rightarrow> bool" quant bool | EndOfString

fun rx_match :: "rx_item list \<Rightarrow> pystr \<Rightarrow> pystr \<Rightarrow> pystr option" where
  "rx_match [] s cap = Some cap"
| "rx_match (EndOfString # its) s cap =
     (if s = [] \<or> s = [10] then rx_match its s cap else None)"
| "rx_match (Chars p Once g # its) [] cap = None"
| "rx_match (Chars p Once g # its) (c # s) cap =
     (if p c then rx_match its s (if g then cap @ [c] else cap) else None)"
| "rx_match (Chars p Plus g # its) [] cap = None"
| "rx_match (Chars p Plus g # its) (c # s) cap =
     (if p c then rx_match (Chars p Star g # its) s (if g then cap @ [c] else cap) else None)"
| "rx_match (Chars p Star g # its) [] cap = rx_match its [] cap"
| "rx_match (Chars p Star g # its) (c # s) cap =
     (if p c then
        (case rx_match (Chars p Star g # its) s (if g then cap @ [c] else cap) of
           Some r \<Rightarrow> Some r
         | None \<Rightarrow> rx_match its (c # s) cap)
      else rx_match its (c # s) cap)"

definition re_match :: "rx_item list \<Rightarrow> pystr \<Rightarrow> pystr option" where
  "re_match pat s = rx_match pat s []"

definition rx_space :: "pychar \<Rightarrow> bool" where
  "rx_space c = py_isspace c"

definition rx_dollar :: "pychar \<Rightarrow> bool" where
  "rx_dollar c = (c = 36)"

text \<open>\<open>.\<close> without DOTALL: any character but the line feed.\<close>

definition rx_dot :: "pychar \<Rightarrow> bool" where
  "rx_dot c = (c \<noteq> 10)"

text \<open>\<^verbatim>\<open>^\s\$(.+)\$\s*$\<close>\<close>

definition math_inline_re :: "rx_item list" where
  "math_inline_re =
     [Chars rx_space Once False, Chars rx_dollar Once False, Chars rx_dot Plus True,
      Chars rx_dollar Once False, Chars rx_space Star False, EndOfString]"

text \<open>\<^verbatim>\<open>^\s\$\$(.+)\$\$\s*$\<close>\<close>

definition math_block_re :: "rx_item list" where
  "math_block_re =
     [Chars rx_space Once False, Chars rx_dollar Once False, Chars rx_dollar Once False,
      Chars rx_dot Plus True,
      Chars rx_dollar Once False, Chars rx_dollar Once False, Chars rx_space Star False,
      EndOfString]"

text \<open>
  The inline pattern as the specification words it, for comparison with
  \<open>math_inline_re\<close>: optional leading whitespace, a single dollar sign, one or more
  captured characters, a single dollar sign, optional trailing whitespace, against the
  whole string.
\<close>

definition spec_inline_re :: "rx_item list" where
  "spec_inline_re =
     [Chars rx_space Star False, Chars rx_dollar Once False, Chars rx_dot Plus True,
      Chars rx_dollar Once False, Chars rx_space Star False, EndOfString]"

section \<open>The cell normalizer (\<open>clean_table_cells\<close>)\<close>

text \<open>
  The part of the python-docx object model the function touches. A run has its text and
  the name and size of its font (\<open>None\<close> when inherited); sizes are lengths in English
  Metric Units, \<open>Pt n\<close> being \<open>n\<close> points. A paragraph has its text, its runs and its
  alignment. The text, \<open>p.text\<close>, is a field of its own: the function tests \<open>p.text\<close>
  but formats \<open>p.runs\<close>, and the two differ, since \<open>p.runs\<close> holds only the runs that
  are direct children of the paragraph while \<open>p.text\<close> (from python-docx 1.0) also
  holds the text inside hyperlinks, which is in no run of \<open>p.runs\<close>. A cell has its
  paragraphs.
\<close>

datatype alignment = LEFT | CENTER | RIGHT | JUSTIFY

record docx_run =
  r_text :: pystr
  font_name :: "pystr option"
  font_size :: "nat option"

record docx_paragraph =
  p_text :: pystr
  runs :: "docx_run list"
  alignment :: "alignment option"

record cell =
  paragraphs :: "docx_paragraph list"

definition Pt :: "nat \<Rightarrow> nat" where
  "Pt n = n * 12700"

text \<open>\<open>"\n".join(p.text for p in cell.paragraphs).strip()\<close>\<close>

definition full_text :: "cell \<Rightarrow> pystr" where
  "full_text c = strip (join [10] (map p_text (paragraphs c)))"

text \<open>
  \<open>for r in p.runs: r.clear()\<close> followed by \<open>p.text = cleaned\<close>: the setter removes the
  content of the paragraph, keeps its properties, and adds one new run with the text,
  which is then the text of the paragraph.
\<close>

definition set_text :: "pystr \<Rightarrow> docx_paragraph \<Rightarrow> docx_paragraph" where
  "set_text t p =
     p\<lparr>p_text := t, runs := [\<lparr>r_text = t, font_name = None, font_size = None\<rparr>]\<rparr>"

definition format_run :: "docx_run \<Rightarrow> docx_run" where
  "format_run r = r\<lparr>font_name := Some (py ''Consolas''), font_size := Some (Pt 10)\<rparr>"

text \<open>
  The \<open>=\<close> branch for one paragraph: the font of every run of \<open>p.runs\<close> and the
  alignment are set; no text is touched.
\<close>

definition format_paragraph :: "docx_paragraph \<Rightarrow> docx_paragraph" where
  "format_paragraph p = p\<lparr>runs := map format_run (runs p), alignment := Some LEFT\<rparr>"

text \<open>The value of \<open>cleaned\<close> after the \<open>if m1 ... elif m2 ...\<close>.\<close>

definition cleaned :: "pystr \<Rightarrow> pystr option" where
  "cleaned ft =
     (case re_match math_inline_re ft of
        Some g \<Rightarrow> Some (strip g)
      | None \<Rightarrow>
          (case re_match math_block_re ft of
             Some g \<Rightarrow> Some (strip g)
           | None \<Rightarrow> None))"

text \<open>The body of \<open>for cell in row.cells\<close>.\<close>

definition clean_cell :: "cell \<Rightarrow> cell" where
  "clean_cell c =
     (case cleaned (full_text c) of
        Some t \<Rightarrow> c\<lparr>paragraphs := map (set_text t) (paragraphs c)\<rparr>
      | None \<Rightarrow>
          if startswith (full_text c) (py ''='') then
            c\<lparr>paragraphs := map format_paragraph (paragraphs c)\<rparr>
          else c)"

text \<open>
  The cells of a document are objects mutated in place, and \<open>row.cells\<close> lists a merged
  cell once for every grid column it spans, so the same cell can be visited several
  times. A document is therefore a store of cells by identity together with the
  tables, each a list of rows, each a list of cell identities.
\<close>

type_synonym cell_id = nat

record document =
  tables :: "cell_id list list list"
  cells :: "cell_id \<Rightarrow> cell"

definition clean_at :: "(cell_id \<Rightarrow> cell) \<Rightarrow> cell_id \<Rightarrow> (cell_id \<Rightarrow> cell)" where
  "clean_at st cid = st(cid := clean_cell (st cid))"

definition clean_table_cells :: "document \<Rightarrow> document" where
  "clean_table_cells doc =
     doc\<lparr>cells :=
       foldl (\<lambda>st table. foldl (\<lambda>st row. foldl clean_at st row) st table)
         (cells doc) (tables doc)\<rparr>"

definition cell_ids :: "document \<Rightarrow> cell_id list" where
  "cell_ids doc = concat (concat (tables doc))"

text \<open>A cell with one paragraph of one run of plain text, as the converter writes it.\<close>

definition text_cell :: "pystr \<Rightarrow> cell" where
  "text_cell t =
     \<lparr>paragraphs = [\<lparr>p_text = t,
                      runs = [\<lparr>r_text = t, font_name = None, font_size = None\<rparr>],
                      alignment = None\<rparr>]\<rparr>"

text \<open>
  A cell with one paragraph whose text is all inside a hyperlink: \<open>p.text\<close> is the
  text, \<open>p.runs\<close> is empty.
\<close>

definition link_cell :: "pystr \<Rightarrow> cell" where
  "link_cell t = \<lparr>paragraphs = [\<lparr>p_text = t, runs = [], alignment = None\<rparr>]\<rparr>"

section \<open>The control flow of \<open>main\<close>\<close>

text \<open>
  What \<open>main\<close> does to the outside is recorded as a list of events and the presence
  of the temporary file; what the outside does to \<open>main\<close> is an environment: whether the
  input file and the converter are found, whether preprocessing raises an I/O error,
  how the converter process ends, whether the cell normalizer raises, and whether the
  \<open>unlink\<close> system call refuses to remove a file that is there.
\<close>

datatype exn = CalledProcessError nat | SystemExit nat | OtherException

datatype message =
  InputNotFound | PandocNotFound | Converted | ConversionFailed | ErrorDetail nat

datatype event = Printed message | PandocRun | CleanCalled | UnlinkCalled

datatype pandoc_result = Exited nat | LaunchFailed

record env =
  input_is_file :: bool
  pandoc_found :: bool
  preprocess_fails :: bool
  pandoc_ends :: pandoc_result
  clean_fails :: bool
  unlink_fails :: bool

record world =
  events :: "event list"
  tmp_exists :: bool

text \<open>A statement runs on the world and either completes (\<open>None\<close>) or raises.\<close>

type_synonym stmt = "world \<Rightarrow> exn option \<times> world"

definition skip :: stmt where
  "skip w = (None, w)"

definition raise :: "exn \<Rightarrow> stmt" where
  "raise e w = (Some e, w)"

definition emit :: "event \<Rightarrow> stmt" where
  "emit ev w = (None, w\<lparr>events := events w @ [ev]\<rparr>)"

definition seq :: "stmt \<Rightarrow> stmt \<Rightarrow> stmt" where
  "seq a b w = (case a w of (None, w') \<Rightarrow> b w' | (Some e, w') \<Rightarrow> (Some e, w'))"

text \<open>\<open>try: a except subprocess.CalledProcessError as e: h(e)\<close>\<close>

definition try_except_called_process_error :: "stmt \<Rightarrow> (nat \<Rightarrow> stmt) \<Rightarrow> stmt" where
  "try_except_called_process_error a h w =
     (case a w of
        (Some (CalledProcessError n), w') \<Rightarrow> h n w'
      | r \<Rightarrow> r)"

text \<open>
  \<open>try: a except Exception: pass\<close>: \<open>SystemExit\<close> is not an \<open>Exception\<close> and passes
  through.
\<close>

definition try_except_exception_pass :: "stmt \<Rightarrow> stmt" where
  "try_except_exception_pass a w =
     (case a w of
        (Some (SystemExit n), w') \<Rightarrow> (Some (SystemExit n), w')
      | (_, w') \<Rightarrow> (None, w'))"

text \<open>
  \<open>try: a finally: f\<close>: \<open>f\<close> runs however \<open>a\<close> ends; the outcome of \<open>a\<close> stands
  unless \<open>f\<close> itself raises.
\<close>

definition try_finally :: "stmt \<Rightarrow> stmt \<Rightarrow> stmt" where
  "try_finally a f w =
     (case a w of
        (r, w') \<Rightarrow> (case f w' of (None, w'') \<Rightarrow> (r, w'') | (Some e, w'') \<Rightarrow> (Some e, w'')))"

definition print :: "message \<Rightarrow> stmt" where
  "print m = emit (Printed m)"

definition sys_exit :: "nat \<Rightarrow> stmt" where
  "sys_exit n = raise (SystemExit n)"

text \<open>\<open>preprocess_markdown\<close> as \<open>main\<close> sees it: it leaves a temporary file, or raises.\<close>

definition preprocess_markdown :: "env \<Rightarrow> stmt" where
  "preprocess_markdown e w =
     (if preprocess_fails e then (Some OtherException, w) else (None, w\<lparr>tmp_exists := True\<rparr>))"

text \<open>\<open>subprocess.run(cmd, check=True)\<close>: a non-zero exit status raises.\<close>

definition convert_md_to_docx :: "env \<Rightarrow> stmt" where
  "convert_md_to_docx e =
     seq (emit PandocRun)
       (case pandoc_ends e of
          Exited n \<Rightarrow> if n = 0 then skip else raise (CalledProcessError n)
        | LaunchFailed \<Rightarrow> raise OtherException)"

definition clean_table_cells_call :: "env \<Rightarrow> stmt" where
  "clean_table_cells_call e =
     seq (emit CleanCalled) (if clean_fails e then raise OtherException else skip)"

definition os_unlink :: "env \<Rightarrow> stmt" where
  "os_unlink e =
     seq (emit UnlinkCalled)
       (\<lambda>w. if tmp_exists w \<and> \<not> unlink_fails e then (None, w\<lparr>tmp_exists := False\<rparr>)
            else (Some OtherException, w))"

text \<open>The \<open>try\<close> statement of \<open>main\<close>, entered once the temporary file is written.\<close>

definition conversion_step :: "env \<Rightarrow> stmt" where
  "conversion_step e =
     try_finally
       (try_except_called_process_error
          (seq (convert_md_to_docx e) (seq (clean_table_cells_call e) (print Converted)))
          (\<lambda>n. seq (print ConversionFailed) (seq (print (ErrorDetail n)) (sys_exit 1))))
       (try_except_exception_pass (os_unlink e))"

definition main :: "env \<Rightarrow> stmt" where
  "main e =
     (if \<not> input_is_file e then seq (print InputNotFound) (sys_exit 1)
      else if \<not> pandoc_found e then seq (print PandocNotFound) (sys_exit 1)
      else seq (preprocess_markdown e) (conversion_step e))"

text \<open>
  The exit status of the interpreter: 0 when \<open>main\<close> returns, the argument of
  \<open>sys.exit\<close>, 1 for an uncaught exception.
\<close>

definition exit_status :: "exn option \<Rightarrow> nat" where
  "exit_status r = (case r of None \<Rightarrow> 0 | Some (SystemExit n) \<Rightarrow> n | Some _ \<Rightarrow> 1)"

definition start :: world where
  "start = \<lparr>events = [], tmp_exists = False\<rparr>"

section \<open>Observations and example inputs\<close>




text \<open>Iteration \<open>i\<close> appended more than the line itself.\<close>

definition separator_inserted :: "pystr list \<Rightarrow> nat \<Rightarrow> bool" where
  "separator_inserted lines i = (length (emitted lines i) > 1)"

text \<open>Example inputs: lines as \<open>readlines\<close> returns them, each ending in a line feed.\<close>

definition table_lines :: "pystr list" where
  "table_lines = [py ''| $a$ | b |'' @ [10], py ''| c | d |'' @ [10]]"

definition heading_lines :: "pystr list" where
  "heading_lines = [py ''# $x$'' @ [10], py ''abc $y$'' @ [10], py ''   '' @ [10]]"

text \<open>
  An example document: one table of two rows; the cell 2 spans two columns and is
  listed twice in its row.
\<close>

definition example_doc :: document where
  "example_doc =
     \<lparr>tables = [[[0, 1], [2, 2, 3]]],
      cells = (\<lambda>cid.
         if cid = 0 then text_cell (py '' $x+1$ '')
         else if cid = 1 then text_cell (py ''$$a=b$$'')
         else if cid = 2 then text_cell (py ''=SUM(A1:A3)'')
         else text_cell (py ''plain text''))\<rparr>"

text \<open>A run, a paragraph or a cell carries the formula formatting.\<close>

definition run_is_formula :: "docx_run \<Rightarrow> bool" where
  "run_is_formula r =
     (font_name r = Some (py ''Consolas'') \<and> font_size r = Some (Pt 10))"

definition paragraph_is_formula :: "docx_paragraph \<Rightarrow> bool" where
  "paragraph_is_formula p = (alignment p = Some LEFT \<and> list_all run_is_formula (runs p))"

text \<open>The text of a cell, run by run.\<close>

definition cell_texts :: "cell \<Rightarrow> pystr list list" where
  "cell_texts c = map (\<lambda>p. map r_text (runs p)) (paragraphs c)"

text \<open>The text of a cell, paragraph by paragraph, as \<open>p.text\<close> gives it.\<close>

definition paragraph_texts :: "cell \<Rightarrow> pystr list" where
  "paragraph_texts c = map p_text (paragraphs c)"

text \<open>
  A document of one table of one row: a cell whose text \<open>=A1\<close> is a hyperlink, and a
  cell whose paragraph starts with the link text \<open>see\<close> followed by a run \<open>=A1\<close>.
\<close>

definition link_doc :: document where
  "link_doc =
     \<lparr>tables = [[[0, 1]]],
      cells = (\<lambda>cid.
         if cid = 0 then link_cell (py ''=A1'')
         else \<lparr>paragraphs =
                 [\<lparr>p_text = py ''see=A1'',
                   runs = [\<lparr>r_text = py ''=A1'', font_name = None, font_size = None\<rparr>],
                   alignment = None\<rparr>]\<rparr>)\<rparr>"

text \<open>An environment in which the converter exits with status 1.\<close>

definition failing_env :: env where
  "failing_env =
     \<lparr>input_is_file = True, pandoc_found = True, preprocess_fails = False,
      pandoc_ends = Exited 1, clean_fails = False, unlink_fails = False\<rparr>"

section \<open>Evaluation rules\<close>

lemmas str_eval = py_def py_isspace_def strip_def lstrip_def rstrip_def rstrip_nl_def
  startswith_def startswith_any_def endswith_def fence_backticks_def

lemmas pre_eval = run_loop_def loop_body_def hard_break_def dense_def next_line_def
  next_markers_def is_block_start_def is_table_row_def preprocess_lines_def emitted_def Let_def
  upt_conv_Cons

lemmas rx_eval = re_match_def math_inline_re_def math_block_re_def spec_inline_re_def
  rx_space_def rx_dollar_def rx_dot_def

lemmas cell_eval = text_cell_def link_cell_def full_text_def cleaned_def clean_cell_def
  format_paragraph_def format_run_def set_text_def

lemmas stmt_eval = skip_def raise_def emit_def seq_def try_except_called_process_error_def
  try_except_exception_pass_def try_finally_def print_def sys_exit_def

lemmas main_eval = preprocess_markdown_def convert_md_to_docx_def clean_table_cells_call_def
  os_unlink_def conversion_step_def main_def exit_status_def start_def

section \<open>The loop of the line preprocessor\<close>

lemma run_loop_0: "run_loop lines 0 = \<lparr>out_lines = [], prev_blank = True\<rparr>"
  by (simp add: run_loop_def)

lemma run_loop_Suc: "run_loop lines (Suc n) = loop_body lines (run_loop lines n) n"
  by (simp add: run_loop_def)

text \<open>
  A table row starts with a pipe after stripping, so it is never a block-start line:
  the test \<open>not is_table_row\<close> of the first branch changes nothing, and a table row
  always takes the second branch.
\<close>

lemma table_row_not_block_start: "is_table_row cur \<Longrightarrow> \<not> is_block_start cur"
  unfolding is_table_row_def is_block_start_def startswith_def py_def fence_backticks_def Let_def
  by (cases "strip cur") auto

lemma loop_body_block:
  assumes "is_block_start (rstrip_nl (lines ! i))"
  shows "loop_body lines st i =
     \<lparr>out_lines = (if \<not> prev_blank st \<and> rstrip_nl (lines ! i) \<noteq> [] then out_lines st @ [[]]
                   else out_lines st) @ [rstrip_nl (lines ! i)],
      prev_blank = (rstrip_nl (lines ! i) = [])\<rparr>"
  using assms table_row_not_block_start [of "rstrip_nl (lines ! i)"]
  by (auto simp: loop_body_def Let_def)

lemma loop_body_other:
  assumes "\<not> is_block_start (rstrip_nl (lines ! i))"
  shows "loop_body lines st i =
     \<lparr>out_lines = out_lines st @ [hard_break (rstrip_nl (lines ! i)) (next_line lines i)],
      prev_blank = (hard_break (rstrip_nl (lines ! i)) (next_line lines i) = [])\<rparr>"
  using assms by (simp add: loop_body_def Let_def)



lemma hard_break_unchanged:
  "hard_break cur nxt \<noteq> cur @ py ''  '' \<Longrightarrow> hard_break cur nxt = cur"
  by (simp add: hard_break_def split: if_splits)



text \<open>
  \<open>prev_blank\<close> is true before the first iteration and afterwards says that the last
  line written is empty.
\<close>

lemma run_loop_invariant:
  "(out_lines (run_loop lines n) = [] \<longleftrightarrow> n = 0) \<and>
   prev_blank (run_loop lines n) = (n = 0 \<or> last (out_lines (run_loop lines n)) = [])"
proof (induction n)
  case 0
  show ?case by (simp add: run_loop_0)
next
  case (Suc n)
  show ?case
  proof (cases "is_block_start (rstrip_nl (lines ! n))")
    case True
    show ?thesis by (simp add: run_loop_Suc loop_body_block [OF True])
  next
    case False
    show ?thesis by (simp add: run_loop_Suc loop_body_other [OF False])
  qed
qed

lemma emitted_block:
  assumes "is_block_start (rstrip_nl (lines ! i))"
  shows "emitted lines i =
     (if \<not> prev_blank (run_loop lines i) \<and> rstrip_nl (lines ! i) \<noteq> [] then [[]] else []) @
     [rstrip_nl (lines ! i)]"
  by (simp add: emitted_def run_loop_Suc loop_body_block [OF assms])

lemma emitted_other:
  assumes "\<not> is_block_start (rstrip_nl (lines ! i))"
  shows "emitted lines i = [hard_break (rstrip_nl (lines ! i)) (next_line lines i)]"
  by (simp add: emitted_def run_loop_Suc loop_body_other [OF assms])

lemma out_lines_step:
  "out_lines (run_loop lines (Suc i)) = out_lines (run_loop lines i) @ emitted lines i"
proof (cases "is_block_start (rstrip_nl (lines ! i))")
  case True
  show ?thesis by (simp add: emitted_def run_loop_Suc loop_body_block [OF True])
next
  case False
  show ?thesis by (simp add: emitted_def run_loop_Suc loop_body_other [OF False])
qed

lemma out_lines_from:
  "out_lines (run_loop lines (i + k)) =
     out_lines (run_loop lines i) @ concat (map (emitted lines) [i..<i + k])"
proof (induction k)
  case 0
  show ?case by simp
next
  case (Suc k)
  have "out_lines (run_loop lines (i + Suc k)) =
          out_lines (run_loop lines (i + k)) @ emitted lines (i + k)"
    using out_lines_step [of lines "i + k"] by simp
  with Suc show ?case by simp
qed

lemma out_lines_concat: "out_lines (run_loop lines n) = concat (map (emitted lines) [0..<n])"
  using out_lines_from [of lines 0 n] by (simp add: run_loop_0)

text \<open>What an iteration wrote stays where it is in the final output.\<close>

lemma output_nth_stable:
  assumes "i < length lines" and "j < length (out_lines (run_loop lines (Suc i)))"
  shows "preprocess_lines lines ! j = out_lines (run_loop lines (Suc i)) ! j"
proof -
  obtain k where "length lines = Suc i + k"
    using assms(1) less_iff_Suc_add by auto
  then have "preprocess_lines lines =
      out_lines (run_loop lines (Suc i)) @ concat (map (emitted lines) [Suc i..<Suc i + k])"
    unfolding preprocess_lines_def using out_lines_from [of lines "Suc i" k] by simp
  then show ?thesis using assms(2) by (simp add: nth_append)
qed

text \<open>No separator is written before a table row: its iteration appends one line.\<close>

lemma table_row_single_line:
  "is_table_row (rstrip_nl (lines ! i)) \<Longrightarrow>
   emitted lines i = [hard_break (rstrip_nl (lines ! i)) (next_line lines i)]"
  by (simp add: emitted_other table_row_not_block_start)

section \<open>The cell normalizer never rewrites text\<close>

lemma strip_hd_not_space: "strip s = c # t \<Longrightarrow> \<not> py_isspace c"
  unfolding strip_def lstrip_def
  using hd_dropWhile [of py_isspace "rstrip s"] by fastforce

lemma inline_never_matches: "re_match math_inline_re (strip s) = None"
  by (cases "strip s")
     (auto simp: re_match_def math_inline_re_def rx_space_def dest: strip_hd_not_space)

lemma block_never_matches: "re_match math_block_re (strip s) = None"
  by (cases "strip s")
     (auto simp: re_match_def math_block_re_def rx_space_def dest: strip_hd_not_space)

lemma cleaned_strip: "cleaned (strip s) = None"
  by (simp add: cleaned_def inline_never_matches block_never_matches)

lemma cleaned_full_text: "cleaned (full_text c) = None"
  by (simp add: full_text_def cleaned_strip)

lemma clean_cell_eq:
  "clean_cell c =
     (if startswith (full_text c) (py ''='') then
        c\<lparr>paragraphs := map format_paragraph (paragraphs c)\<rparr>
      else c)"
  by (simp add: clean_cell_def cleaned_full_text)

lemma r_text_format_run: "r_text (format_run r) = r_text r"
  by (simp add: format_run_def)

lemma runs_text_format_paragraph:
  "map r_text (runs (format_paragraph p)) = map r_text (runs p)"
  by (simp add: format_paragraph_def r_text_format_run)

lemma p_text_format_paragraph: "p_text (format_paragraph p) = p_text p"
  by (simp add: format_paragraph_def)

lemma paragraph_texts_clean_cell: "paragraph_texts (clean_cell c) = paragraph_texts c"
  by (simp add: clean_cell_eq paragraph_texts_def p_text_format_paragraph)

lemma cell_texts_clean_cell: "cell_texts (clean_cell c) = cell_texts c"
  by (simp add: clean_cell_eq cell_texts_def runs_text_format_paragraph)

lemma full_text_clean_cell: "full_text (clean_cell c) = full_text c"
  by (simp add: clean_cell_eq full_text_def o_def p_text_format_paragraph)

lemma format_run_idem: "format_run (format_run r) = format_run r"
  by (simp add: format_run_def)

lemma format_paragraph_idem: "format_paragraph (format_paragraph p) = format_paragraph p"
  by (simp add: format_paragraph_def format_run_idem)

text \<open>Visiting a cell again, as happens for a merged cell, changes nothing more.\<close>

lemma clean_cell_idem: "clean_cell (clean_cell c) = clean_cell c"
proof (cases "startswith (full_text c) (py ''='')")
  case True
  have "clean_cell (clean_cell c) =
          (clean_cell c)\<lparr>paragraphs := map format_paragraph (paragraphs (clean_cell c))\<rparr>"
    using True clean_cell_eq [of "clean_cell c"] by (simp add: full_text_clean_cell)
  also have "\<dots> = clean_cell c"
    using True by (simp add: clean_cell_eq [of c] format_paragraph_idem)
  finally show ?thesis .
next
  case False
  then show ?thesis by (simp add: clean_cell_eq)
qed

lemma foldl_clean_at:
  "foldl clean_at st ids = (\<lambda>cid. if cid \<in> set ids then clean_cell (st cid) else st cid)"
proof (induction ids arbitrary: st)
  case Nil
  show ?case by simp
next
  case (Cons a ids)
  have "foldl clean_at st (a # ids) = foldl clean_at (clean_at st a) ids"
    by simp
  also have "\<dots> =
      (\<lambda>cid. if cid \<in> set ids then clean_cell (clean_at st a cid) else clean_at st a cid)"
    by (rule Cons.IH)
  also have "\<dots> = (\<lambda>cid. if cid \<in> set (a # ids) then clean_cell (st cid) else st cid)"
    by (rule ext) (simp add: clean_at_def clean_cell_idem)
  finally show ?case .
qed

lemma foldl_rows:
  "foldl (\<lambda>st row. foldl clean_at st row) st table = foldl clean_at st (concat table)"
  by (induction table arbitrary: st) simp_all

lemma foldl_tables:
  "foldl (\<lambda>st table. foldl (\<lambda>st row. foldl clean_at st row) st table) st tabs =
     foldl clean_at st (concat (concat tabs))"
  by (induction tabs arbitrary: st) (simp_all add: foldl_rows)

lemma cells_clean_table_cells:
  "cells (clean_table_cells doc) cid =
     (if cid \<in> set (cell_ids doc) then clean_cell (cells doc cid) else cells doc cid)"
proof -
  have "cells (clean_table_cells doc) = foldl clean_at (cells doc) (cell_ids doc)"
    by (simp add: clean_table_cells_def foldl_tables cell_ids_def)
  then show ?thesis by (simp add: foldl_clean_at)
qed

lemma format_run_is_formula: "run_is_formula (format_run r)"
  by (simp add: run_is_formula_def format_run_def)

lemma format_paragraph_is_formula: "paragraph_is_formula (format_paragraph p)"
  by (simp add: paragraph_is_formula_def format_paragraph_def list_all_iff format_run_is_formula)

lemma example_cell_ids: "cell_ids example_doc = [0, 1, 2, 2, 3]"
  by (simp add: cell_ids_def example_doc_def)

lemma link_cell_ids: "cell_ids link_doc = [0, 1]"
  by (simp add: cell_ids_def link_doc_def)

section \<open>The conversion step\<close>

lemma main_reaches_conversion:
  assumes "input_is_file e" and "pandoc_found e" and "\<not> preprocess_fails e"
  shows "main e start = conversion_step e \<lparr>events = [], tmp_exists = True\<rparr>"
  using assms by (simp add: main_def preprocess_markdown_def seq_def start_def)

lemma conversion_step_unlinks:
  "last (events (snd (conversion_step e \<lparr>events = [], tmp_exists = True\<rparr>))) = UnlinkCalled \<and>
   count_list (events (snd (conversion_step e \<lparr>events = [], tmp_exists = True\<rparr>)))
     UnlinkCalled = 1 \<and>
   tmp_exists (snd (conversion_step e \<lparr>events = [], tmp_exists = True\<rparr>)) = unlink_fails e"
  by (cases "pandoc_ends e"; cases "clean_fails e"; cases "unlink_fails e")
     (simp_all add: stmt_eval main_eval)

lemma conversion_step_failure:
  assumes "pandoc_ends e = Exited n" and "n \<noteq> 0"
  shows "fst (conversion_step e \<lparr>events = [], tmp_exists = True\<rparr>) = Some (SystemExit 1) \<and>
         events (snd (conversion_step e \<lparr>events = [], tmp_exists = True\<rparr>)) =
           [PandocRun, Printed ConversionFailed, Printed (ErrorDetail n), UnlinkCalled]"
  using assms by (cases "unlink_fails e") (simp_all add: stmt_eval main_eval)

section \<open>The claims\<close>

text \<open>
  C1. The claim: a cell whose text is \<open>" $x+1$ "\<close> is rewritten to \<open>"x+1"\<close>, and a cell
  whose text is \<open>"$$a=b$$"\<close> to \<open>"a=b"\<close>. On the code neither cell is rewritten: the
  text is stripped before matching and both patterns then ask for a whitespace
  character in front of the first dollar sign. The cells 0 and 1 of the example
  document hold the two texts and come out as they went in.
\<close>

theorem dollar_cells_not_rewritten:
  "cells (clean_table_cells example_doc) 0 = text_cell (py '' $x+1$ '') \<and>
   cells (clean_table_cells example_doc) 1 = text_cell (py ''$$a=b$$'') \<and>
   cell_texts (cells (clean_table_cells example_doc) 0) \<noteq> [[py ''x+1'']] \<and>
   cell_texts (cells (clean_table_cells example_doc) 1) \<noteq> [[py ''a=b'']]"
  by (simp add: cells_clean_table_cells example_cell_ids example_doc_def cell_texts_def
      str_eval rx_eval cell_eval)

text \<open>
  C2. The math-rewrite branch is unreachable: neither pattern matches a stripped
  string, so \<open>cleaned\<close> is \<open>None\<close> for every cell, the text of every cell (run by run,
  and paragraph by paragraph as \<open>p.text\<close> gives it) is what it was, for one visit and
  for the whole document, and a cell changes only through the formatting of the \<open>=\<close>
  branch.
\<close>

theorem math_rewrite_unreachable:
  "re_match math_inline_re (strip s) = None \<and>
   re_match math_block_re (strip s) = None \<and>
   cleaned (full_text c) = None \<and>
   cell_texts (clean_cell c) = cell_texts c \<and>
   cell_texts (cells (clean_table_cells doc) cid) = cell_texts (cells doc cid) \<and>
   paragraph_texts (clean_cell c) = paragraph_texts c \<and>
   paragraph_texts (cells (clean_table_cells doc) cid) = paragraph_texts (cells doc cid) \<and>
   clean_cell c =
     (if startswith (full_text c) (py ''='') then
        c\<lparr>paragraphs := map format_paragraph (paragraphs c)\<rparr>
      else c)"
proof -
  have doc_texts: "cell_texts (cells (clean_table_cells doc) cid) = cell_texts (cells doc cid)"
    by (simp add: cells_clean_table_cells cell_texts_clean_cell)
  have doc_paragraphs:
    "paragraph_texts (cells (clean_table_cells doc) cid) = paragraph_texts (cells doc cid)"
    by (simp add: cells_clean_table_cells paragraph_texts_clean_cell)
  show ?thesis
    by (intro conjI inline_never_matches block_never_matches cleaned_full_text
        cell_texts_clean_cell doc_texts paragraph_texts_clean_cell doc_paragraphs clean_cell_eq)
qed

text \<open>
  C3. The claim: no table row is ever altered by the preprocessor, and no separator is
  written before one. On the code a table row takes the dense-line branch like any
  other line: the first of two table rows holds a dollar sign and is followed by a
  non-empty line, and gets the two spaces.
\<close>

theorem table_row_altered:
  "is_table_row (rstrip_nl (table_lines ! 0)) \<and>
   rstrip_nl (table_lines ! 0) = py ''| $a$ | b |'' \<and>
   preprocess_lines table_lines = [py ''| $a$ | b |  '', py ''| c | d |'']"
  by (simp add: table_lines_def pre_eval str_eval)




text \<open>
  C5. An iteration appends either one line or a separator and the line. It appends
  a separator only for a block-start line that is non-empty, never for the first
  line, and only when the line written last is not the empty string (the "blank" of
  the \<open>prev_blank\<close> flag). In the final output the separator then stands between two
  non-empty lines, so two inserted separators are never next to each other.
\<close>

theorem separator_only_after_nonblank:
  assumes "i < length lines"
  shows "if separator_inserted lines i then
           emitted lines i = [[], rstrip_nl (lines ! i)] \<and>
           is_block_start (rstrip_nl (lines ! i)) \<and> rstrip_nl (lines ! i) \<noteq> [] \<and>
           0 < i \<and> last (out_lines (run_loop lines i)) \<noteq> [] \<and>
           preprocess_lines lines ! (length (out_lines (run_loop lines i)) - 1) \<noteq> [] \<and>
           preprocess_lines lines ! (length (out_lines (run_loop lines i))) = [] \<and>
           preprocess_lines lines ! (length (out_lines (run_loop lines i)) + 1) \<noteq> []
         else length (emitted lines i) = 1"
proof (cases "separator_inserted lines i")
  case False
  then have "length (emitted lines i) \<le> 1" by (simp add: separator_inserted_def)
  moreover have "emitted lines i \<noteq> []"
    by (cases "is_block_start (rstrip_nl (lines ! i))") (simp_all add: emitted_block emitted_other)
  ultimately have "length (emitted lines i) = 1"
    by (cases "emitted lines i") simp_all
  with False show ?thesis by simp
next
  case True
  let ?cur = "rstrip_nl (lines ! i)"
  let ?before = "out_lines (run_loop lines i)"
  have blk: "is_block_start ?cur"
  proof (rule ccontr)
    assume "\<not> is_block_start ?cur"
    then have "length (emitted lines i) = 1" by (simp add: emitted_other)
    with True show False by (simp add: separator_inserted_def)
  qed
  have cond: "\<not> prev_blank (run_loop lines i) \<and> ?cur \<noteq> []"
  proof (rule ccontr)
    assume "\<not> (\<not> prev_blank (run_loop lines i) \<and> ?cur \<noteq> [])"
    then have "length (emitted lines i) = 1" using emitted_block [OF blk] by auto
    with True show False by (simp add: separator_inserted_def)
  qed
  have em: "emitted lines i = [[], ?cur]"
    using emitted_block [OF blk] cond by simp
  have pos: "0 < i" and ne: "?before \<noteq> []" and lst: "last ?before \<noteq> []"
    using run_loop_invariant [of lines i] cond by auto
  have after: "out_lines (run_loop lines (Suc i)) = ?before @ [[], ?cur]"
    using out_lines_step [of lines i] em by simp
  have n0: "preprocess_lines lines ! (length ?before - 1) = last ?before"
    using output_nth_stable [OF assms, of "length ?before - 1"] ne
    by (simp add: after nth_append last_conv_nth)
  have n1: "preprocess_lines lines ! (length ?before) = []"
    using output_nth_stable [OF assms, of "length ?before"] by (simp add: after nth_append)
  have n2: "preprocess_lines lines ! (length ?before + 1) = ?cur"
    using output_nth_stable [OF assms, of "length ?before + 1"] by (simp add: after nth_append)
  show ?thesis
    using True em blk cond pos lst n0 n1 n2 by simp
qed

theorem separator_only_after_nonblank_witness:
  "2 < length heading_lines \<and> separator_inserted heading_lines 2 \<and>
   emitted heading_lines 2 = [[], py ''   ''] \<and>
   last (out_lines (run_loop heading_lines 2)) \<noteq> [] \<and>
   preprocess_lines heading_lines ! 1 \<noteq> [] \<and>
   preprocess_lines heading_lines ! 2 = [] \<and>
   preprocess_lines heading_lines ! 3 \<noteq> []"
proof -
  have h: "2 < length heading_lines" by (simp add: heading_lines_def)
  have s: "separator_inserted heading_lines 2"
    by (simp add: heading_lines_def separator_inserted_def pre_eval str_eval)
  have r: "rstrip_nl (heading_lines ! 2) = py ''   ''"
    by (simp add: heading_lines_def str_eval)
  have l: "length (out_lines (run_loop heading_lines 2)) = 2"
    by (simp add: heading_lines_def pre_eval str_eval)
  show ?thesis
    using h s r l separator_only_after_nonblank [OF h] by simp
qed

text \<open>
  C6. The claim: the inline pattern allows any leading whitespace, none included,
  before the dollar sign. The pattern of the code asks for exactly one whitespace
  character there: on \<open>$x+1$\<close> the pattern of the specification captures \<open>x+1\<close> and the
  pattern of the code does not match, so the cell is left as it is; the two agree on
  \<open>" $x+1$ "\<close>, which a stripped cell text never is.
\<close>

theorem inline_pattern_differs_from_spec:
  "re_match spec_inline_re (py ''$x+1$'') = Some (py ''x+1'') \<and>
   re_match math_inline_re (py ''$x+1$'') = None \<and>
   re_match spec_inline_re (py '' $x+1$ '') = Some (py ''x+1'') \<and>
   re_match math_inline_re (py '' $x+1$ '') = Some (py ''x+1'') \<and>
   clean_cell (text_cell (py ''$x+1$'')) = text_cell (py ''$x+1$'')"
  by (simp add: str_eval rx_eval cell_eval)

text \<open>
  C7. A cell of the document whose full text (from \<open>p.text\<close>) starts with \<open>=\<close> and
  matches neither pattern ends with every paragraph left-aligned and every run of
  \<open>p.runs\<close> in Consolas at 10 points, and with the text of every run, the text of every
  paragraph and so its full text as before. The cell may hold text that is in no run:
  a cell whose \<open>=A1\<close> is a hyperlink has no run to format and is left-aligned.
\<close>

theorem formula_cell_formatted:
  assumes "cid \<in> set (cell_ids doc)"
    and "re_match math_inline_re (full_text (cells doc cid)) = None"
    and "re_match math_block_re (full_text (cells doc cid)) = None"
    and "startswith (full_text (cells doc cid)) (py ''='')"
  shows "list_all paragraph_is_formula (paragraphs (cells (clean_table_cells doc) cid)) \<and>
         cell_texts (cells (clean_table_cells doc) cid) = cell_texts (cells doc cid) \<and>
         full_text (cells (clean_table_cells doc) cid) = full_text (cells doc cid) \<and>
         paragraph_texts (cells (clean_table_cells doc) cid) = paragraph_texts (cells doc cid)"
proof -
  have c: "cells (clean_table_cells doc) cid = clean_cell (cells doc cid)"
    using assms(1) by (simp add: cells_clean_table_cells)
  have "list_all paragraph_is_formula (paragraphs (clean_cell (cells doc cid)))"
    using assms(4)
    by (simp add: clean_cell_eq list_all_iff format_paragraph_is_formula)
  then show ?thesis
    by (simp add: c cell_texts_clean_cell full_text_clean_cell paragraph_texts_clean_cell)
qed

theorem formula_cell_formatted_witness:
  "2 \<in> set (cell_ids example_doc) \<and>
   re_match math_inline_re (full_text (cells example_doc 2)) = None \<and>
   re_match math_block_re (full_text (cells example_doc 2)) = None \<and>
   startswith (full_text (cells example_doc 2)) (py ''='') \<and>
   list_all paragraph_is_formula (paragraphs (cells (clean_table_cells example_doc) 2)) \<and>
   cell_texts (cells (clean_table_cells example_doc) 2) = [[py ''=SUM(A1:A3)'']] \<and>
   0 \<in> set (cell_ids link_doc) \<and>
   re_match math_inline_re (full_text (cells link_doc 0)) = None \<and>
   re_match math_block_re (full_text (cells link_doc 0)) = None \<and>
   startswith (full_text (cells link_doc 0)) (py ''='') \<and>
   list_all paragraph_is_formula (paragraphs (cells (clean_table_cells link_doc) 0)) \<and>
   cell_texts (cells (clean_table_cells link_doc) 0) = [[]] \<and>
   paragraph_texts (cells (clean_table_cells link_doc) 0) = [py ''=A1'']"
proof -
  have h1: "2 \<in> set (cell_ids example_doc)" by (simp add: example_cell_ids)
  have h2: "re_match math_inline_re (full_text (cells example_doc 2)) = None"
    by (simp add: example_doc_def str_eval rx_eval cell_eval)
  have h3: "re_match math_block_re (full_text (cells example_doc 2)) = None"
    by (simp add: example_doc_def str_eval rx_eval cell_eval)
  have h4: "startswith (full_text (cells example_doc 2)) (py ''='')"
    by (simp add: example_doc_def str_eval cell_eval)
  have t: "cell_texts (cells example_doc 2) = [[py ''=SUM(A1:A3)'']]"
    by (simp add: example_doc_def cell_texts_def str_eval cell_eval)
  have k1: "0 \<in> set (cell_ids link_doc)" by (simp add: link_cell_ids)
  have k2: "re_match math_inline_re (full_text (cells link_doc 0)) = None"
    by (simp add: link_doc_def str_eval rx_eval cell_eval)
  have k3: "re_match math_block_re (full_text (cells link_doc 0)) = None"
    by (simp add: link_doc_def str_eval rx_eval cell_eval)
  have k4: "startswith (full_text (cells link_doc 0)) (py ''='')"
    by (simp add: link_doc_def str_eval cell_eval)
  have u: "cell_texts (cells link_doc 0) = [[]] \<and>
           paragraph_texts (cells link_doc 0) = [py ''=A1'']"
    by (simp add: link_doc_def cell_texts_def paragraph_texts_def cell_eval)
  show ?thesis
    using h1 h2 h3 h4 t k1 k2 k3 k4 u formula_cell_formatted [OF h1 h2 h3 h4]
      formula_cell_formatted [OF k1 k2 k3 k4]
    by simp
qed

text \<open>
  C8. A cell whose full text (from \<open>p.text\<close>) matches neither pattern and does not
  start with \<open>=\<close> is the same cell after \<open>clean_table_cells\<close>: text, fonts and
  alignment. What decides is \<open>p.text\<close>, not the runs: a paragraph whose link text
  \<open>see\<close> comes before a run \<open>=A1\<close> does not start with \<open>=\<close> and is left as it is.
\<close>

theorem other_cell_unchanged:
  assumes "re_match math_inline_re (full_text (cells doc cid)) = None"
    and "re_match math_block_re (full_text (cells doc cid)) = None"
    and "\<not> startswith (full_text (cells doc cid)) (py ''='')"
  shows "cells (clean_table_cells doc) cid = cells doc cid"
  using assms(3) by (simp add: cells_clean_table_cells clean_cell_eq)

theorem other_cell_unchanged_witness:
  "re_match math_inline_re (full_text (cells example_doc 3)) = None \<and>
   re_match math_block_re (full_text (cells example_doc 3)) = None \<and>
   \<not> startswith (full_text (cells example_doc 3)) (py ''='') \<and>
   cells (clean_table_cells example_doc) 3 = text_cell (py ''plain text'') \<and>
   re_match math_inline_re (full_text (cells link_doc 1)) = None \<and>
   re_match math_block_re (full_text (cells link_doc 1)) = None \<and>
   \<not> startswith (full_text (cells link_doc 1)) (py ''='') \<and>
   cells (clean_table_cells link_doc) 1 = cells link_doc 1"
proof -
  have h1: "re_match math_inline_re (full_text (cells example_doc 3)) = None"
    by (simp add: example_doc_def str_eval rx_eval cell_eval)
  have h2: "re_match math_block_re (full_text (cells example_doc 3)) = None"
    by (simp add: example_doc_def str_eval rx_eval cell_eval)
  have h3: "\<not> startswith (full_text (cells example_doc 3)) (py ''='')"
    by (simp add: example_doc_def str_eval cell_eval)
  have t: "cells example_doc 3 = text_cell (py ''plain text'')"
    by (simp add: example_doc_def)
  have k1: "re_match math_inline_re (full_text (cells link_doc 1)) = None"
    by (simp add: link_doc_def str_eval rx_eval cell_eval)
  have k2: "re_match math_block_re (full_text (cells link_doc 1)) = None"
    by (simp add: link_doc_def str_eval rx_eval cell_eval)
  have k3: "\<not> startswith (full_text (cells link_doc 1)) (py ''='')"
    by (simp add: link_doc_def str_eval cell_eval)
  show ?thesis
    using h1 h2 h3 t k1 k2 k3 other_cell_unchanged [OF h1 h2 h3]
      other_cell_unchanged [OF k1 k2 k3]
    by simp
qed

text \<open>
  C9. The output of the preprocessor is, in the order of the input, one group of lines
  for each input line: the line itself, as it is or with the two spaces, after at most
  one empty separator. The cell normalizer leaves the tables, their rows and the cells
  listed in them as they are and in the same order, and every cell keeps its number of
  paragraphs and of runs.
\<close>

theorem order_preserved:
  assumes "i < length lines"
  shows "preprocess_lines lines = concat (map (emitted lines) [0..<length lines]) \<and>
         (emitted lines i = [rstrip_nl (lines ! i)] \<or>
          emitted lines i = [rstrip_nl (lines ! i) @ py ''  ''] \<or>
          emitted lines i = [[], rstrip_nl (lines ! i)]) \<and>
         tables (clean_table_cells doc) = tables doc \<and>
         cell_ids (clean_table_cells doc) = cell_ids doc \<and>
         map length (cell_texts (cells (clean_table_cells doc) cid)) =
           map length (cell_texts (cells doc cid))"
proof -
  have p: "preprocess_lines lines = concat (map (emitted lines) [0..<length lines])"
    by (simp add: preprocess_lines_def out_lines_concat)
  have e: "emitted lines i = [rstrip_nl (lines ! i)] \<or>
           emitted lines i = [rstrip_nl (lines ! i) @ py ''  ''] \<or>
           emitted lines i = [[], rstrip_nl (lines ! i)]"
  proof (cases "is_block_start (rstrip_nl (lines ! i))")
    case True
    then show ?thesis by (simp add: emitted_block)
  next
    case False
    then show ?thesis
      using hard_break_unchanged [of "rstrip_nl (lines ! i)" "next_line lines i"]
      by (auto simp: emitted_other)
  qed
  have t: "tables (clean_table_cells doc) = tables doc"
    by (simp add: clean_table_cells_def)
  have c: "cell_texts (cells (clean_table_cells doc) cid) = cell_texts (cells doc cid)"
    by (simp add: cells_clean_table_cells cell_texts_clean_cell)
  show ?thesis
    using p e t c by (simp add: cell_ids_def)
qed

theorem order_preserved_witness:
  "2 < length heading_lines \<and>
   preprocess_lines heading_lines = [py ''# $x$'', py ''abc $y$  '', [], py ''   ''] \<and>
   concat (map (emitted heading_lines) [0..<length heading_lines]) =
     [py ''# $x$'', py ''abc $y$  '', [], py ''   ''] \<and>
   tables (clean_table_cells example_doc) = [[[0, 1], [2, 2, 3]]]"
proof -
  have h: "2 < length heading_lines" by (simp add: heading_lines_def)
  have o: "preprocess_lines heading_lines = [py ''# $x$'', py ''abc $y$  '', [], py ''   '']"
    by (simp add: heading_lines_def pre_eval str_eval)
  have t: "tables example_doc = [[[0, 1], [2, 2, 3]]]"
    by (simp add: example_doc_def)
  show ?thesis
    using h o t order_preserved [OF h, of example_doc 0] by simp
qed

text \<open>
  C10. Once the temporary file is written, every way through the conversion step ends
  with one call of \<open>unlink\<close> on it, and the file is gone unless that call itself
  failed. When the converter exits with a status other than 0, the failure message and
  the error are printed, the cell normalizer is not called, and the exit status is 1.
\<close>

theorem converter_failure_cleans_up:
  assumes "input_is_file e" and "pandoc_found e" and "\<not> preprocess_fails e"
  shows "last (events (snd (main e start))) = UnlinkCalled \<and>
         count_list (events (snd (main e start))) UnlinkCalled = 1 \<and>
         tmp_exists (snd (main e start)) = unlink_fails e \<and>
         (pandoc_ends e = Exited n \<and> n \<noteq> 0 \<longrightarrow>
            exit_status (fst (main e start)) = 1 \<and>
            events (snd (main e start)) =
              [PandocRun, Printed ConversionFailed, Printed (ErrorDetail n), UnlinkCalled] \<and>
            CleanCalled \<notin> set (events (snd (main e start))))"
  using conversion_step_unlinks [of e] conversion_step_failure [of e n]
  by (simp add: main_reaches_conversion [OF assms] exit_status_def)

theorem converter_failure_cleans_up_witness:
  "input_is_file failing_env \<and> pandoc_found failing_env \<and> \<not> preprocess_fails failing_env \<and>
   pandoc_ends failing_env = Exited 1 \<and> \<not> unlink_fails failing_env \<and>
   exit_status (fst (main failing_env start)) = 1 \<and>
   events (snd (main failing_env start)) =
     [PandocRun, Printed ConversionFailed, Printed (ErrorDetail 1), UnlinkCalled] \<and>
   \<not> tmp_exists (snd (main failing_env start))"
proof -
  have h1: "input_is_file failing_env" by (simp add: failing_env_def)
  have h2: "pandoc_found failing_env" by (simp add: failing_env_def)
  have h3: "\<not> preprocess_fails failing_env" by (simp add: failing_env_def)
  have h4: "pandoc_ends failing_env = Exited 1 \<and> \<not> unlink_fails failing_env"
    by (simp add: failing_env_def)
  show ?thesis
    using h1 h2 h3 h4 converter_failure_cleans_up [OF h1 h2 h3, of 1] by simp
qed

end
